theory Spec2Isabelle
  imports Main "HOL-Library.FSet" "HOL-Library.AList"
begin

section \<open>Python values, dictionaries and exceptions\<close>

text \<open>
  The module \<^verbatim>\<open>discoursegraph.py\<close> defines \<^verbatim>\<open>DiscourseDocumentGraph\<close>, a
  \<^verbatim>\<open>networkx.MultiDiGraph\<close> whose nodes and edges carry a \<^verbatim>\<open>layers\<close> attribute.
  Attribute values are dynamically typed; the values the module inspects are modelled by
  \<open>pyval\<close>. The elements of a Python set are hashable atoms.
\<close>

datatype EdgeTypes =
    pointing_relation
  | dominance_relation
  | reverse_dominance_relation
  | spanning_relation
  | precedence_relation

datatype atom = AStr string | AInt int

datatype pyval = VNone | VInt int | VStr string | VEnum EdgeTypes | VSet "atom fset"

text \<open>
  The exceptions the module can raise. A failed \<^verbatim>\<open>assert\<close> is an \<open>AssertionError\<close>
  (the specification calls these ValidationError, MissingNodeError and PreconditionError);
  the tokenization mismatch of \<^verbatim>\<open>merge_graphs\<close> is a \<open>ValueError\<close>. \<open>RuntimeError\<close> is
  what Python raises when the recursion limit is exceeded.
\<close>

datatype error =
    AssertionError
  | AttributeError
  | KeyError
  | IndexError
  | ValueError
  | TypeError
  | RuntimeError

type_synonym nid = string

text \<open>An attribute dictionary: attribute name to value.\<close>

type_synonym attrs = "string \<rightharpoonup> pyval"

text \<open>
  The dictionary \<^verbatim>\<open>keydict\<close> of the parallel edges between one ordered pair of nodes:
  edge key to attribute dictionary, in insertion order.
\<close>

type_synonym keydict = "(pyval \<times> attrs) list"

text \<open>
  The argument \<^verbatim>\<open>attr_dict\<close>: \<^verbatim>\<open>None\<close>, a dictionary, or an object without an
  \<^verbatim>\<open>update\<close> method.
\<close>

datatype dictarg = ArgNone | ArgDict attrs | ArgOther

definition is_set :: "pyval \<Rightarrow> bool" where
  "is_set x = (case x of VSet _ \<Rightarrow> True | _ \<Rightarrow> False)"

definition is_str :: "atom \<Rightarrow> bool" where
  "is_str a = (case a of AStr _ \<Rightarrow> True | _ \<Rightarrow> False)"

text \<open>\<^verbatim>\<open>all((isinstance(layer, str) for layer in layers))\<close> for a set \<^verbatim>\<open>layers\<close>.\<close>

definition all_str :: "pyval \<Rightarrow> bool" where
  "all_str x = (case x of VSet s \<Rightarrow> fBall s is_str | _ \<Rightarrow> False)"

text \<open>Truth value of an object, as \<^verbatim>\<open>if additional_layers:\<close> tests it.\<close>

definition truthy :: "pyval \<Rightarrow> bool" where
  "truthy x = (case x of VNone \<Rightarrow> False | VInt i \<Rightarrow> i \<noteq> 0 | VStr s \<Rightarrow> s \<noteq> []
                | VEnum _ \<Rightarrow> True | VSet s \<Rightarrow> s \<noteq> {||})"

text \<open>
  \<^verbatim>\<open>a.union(b)\<close>: \<^verbatim>\<open>a\<close> must be a set (anything else has no \<^verbatim>\<open>union\<close> method), \<^verbatim>\<open>b\<close> any
  iterable; iterating a string yields its characters. The result is a new set.
\<close>

definition py_union :: "pyval \<Rightarrow> pyval \<Rightarrow> error + pyval" where
  "py_union a b =
     (case a of
        VSet s \<Rightarrow>
          (case b of
             VSet t \<Rightarrow> Inr (VSet (s |\<union>| t))
           | VStr cs \<Rightarrow> Inr (VSet (s |\<union>| fset_of_list (map (\<lambda>c. AStr [c]) cs)))
           | _ \<Rightarrow> Inl TypeError)
      | _ \<Rightarrow> Inl AttributeError)"

text \<open>A set is not hashable, so it cannot be an edge key.\<close>

definition hashable :: "pyval \<Rightarrow> bool" where
  "hashable k = (\<not> is_set k)"

text \<open>
  \<^verbatim>\<open>if attr_dict is None: attr_dict = attr\<close>, otherwise \<^verbatim>\<open>attr_dict.update(attr)\<close>,
  which raises \<open>AttributeError\<close> when \<^verbatim>\<open>attr_dict\<close> is not a dictionary.
\<close>

definition setup_attr_dict :: "dictarg \<Rightarrow> attrs \<Rightarrow> error + attrs" where
  "setup_attr_dict attr_dict attr =
     (case attr_dict of
        ArgNone \<Rightarrow> Inr attr
      | ArgDict d \<Rightarrow> Inr (d ++ attr)
      | ArgOther \<Rightarrow> Inl AttributeError)"

section \<open>The graph\<close>

text \<open>
  The state of a \<^verbatim>\<open>DiscourseDocumentGraph\<close>. The dictionaries \<^verbatim>\<open>node\<close>, \<^verbatim>\<open>succ\<close> (which
  networkx also calls \<^verbatim>\<open>adj\<close>) and \<^verbatim>\<open>pred\<close> are association lists in insertion order.
  \<^verbatim>\<open>succ[u][v]\<close> and \<^verbatim>\<open>pred[v][u]\<close> hold a reference to one shared \<^verbatim>\<open>keydict\<close> object, so
  the key dictionaries live in a store \<open>heap\<close> and the adjacency dictionaries hold their
  addresses; \<open>nref\<close> is the next unused address. \<^verbatim>\<open>ns\<close>, \<^verbatim>\<open>root\<close>, \<^verbatim>\<open>tokens\<close> and \<^verbatim>\<open>name\<close>
  are the attributes that the document graphs of the package set.
\<close>

record graph =
  node :: "(nid \<times> attrs) list"
  succ :: "(nid \<times> (nid \<times> nat) list) list"
  pred :: "(nid \<times> (nid \<times> nat) list) list"
  heap :: "nat \<Rightarrow> keydict"
  nref :: nat
  ns :: string
  root :: nid
  tokens :: "nid list"
  name :: string

text \<open>The graph that \<^verbatim>\<open>__init__\<close> builds, with the given document attributes.\<close>

definition empty_graph :: "string \<Rightarrow> nid \<Rightarrow> nid list \<Rightarrow> string \<Rightarrow> graph" where
  "empty_graph nsp r toks nm =
     \<lparr>node = [], succ = [], pred = [], heap = (\<lambda>_. []), nref = 0,
      ns = nsp, root = r, tokens = toks, name = nm\<rparr>"

text \<open>
  The loop \<^verbatim>\<open>key = len(keydict); while key in keydict: key += 1\<close>, started at \<open>k\<close>.
\<close>

function find_key :: "(pyval \<times> 'a) list \<Rightarrow> int \<Rightarrow> int" where
  "find_key keydict k =
     (if map_of keydict (VInt k) \<noteq> None then find_key keydict (k + 1) else k)"
  by pat_completeness auto
termination
proof (relation "measure (\<lambda>(kd, k). length (filter (\<lambda>x. \<exists>j\<ge>k. x = VInt j) (map fst kd)))")
  show "wf (measure (\<lambda>(kd :: (pyval \<times> 'a) list, k). length (filter (\<lambda>x. \<exists>j\<ge>k. x = VInt j) (map fst kd))))"
    by simp
next
  fix keydict :: "(pyval \<times> 'a) list" and k :: int
  assume "map_of keydict (VInt k) \<noteq> None"
  then have mem: "VInt k \<in> set (map fst keydict)"
    by (simp add: map_of_eq_None_iff)
  let ?P = "\<lambda>x. \<exists>j\<ge>k. x = VInt j"
  let ?Q = "\<lambda>x. \<exists>j\<ge>k + 1. x = VInt j"
  have eq: "filter ?Q (map fst keydict) = filter ?Q (filter ?P (map fst keydict))"
    by (auto intro!: filter_cong)
  have "VInt k \<in> set (filter ?P (map fst keydict))"
    using mem by auto
  moreover have "\<not> ?Q (VInt k)"
    by auto
  ultimately have "length (filter ?Q (filter ?P (map fst keydict))) < length (filter ?P (map fst keydict))"
    by (rule length_filter_less)
  then have "length (filter ?Q (map fst keydict)) < length (filter ?P (map fst keydict))"
    by (simp only: eq [symmetric])
  then show "((keydict, k + 1), (keydict, k)) \<in>
      measure (\<lambda>(kd, k). length (filter (\<lambda>x. \<exists>j\<ge>k. x = VInt j) (map fst kd)))"
    by (simp only: in_measure prod.case)
qed

declare find_key.simps [simp del]

subsection \<open>add_node\<close>

definition add_node ::
  "nid \<Rightarrow> pyval \<Rightarrow> dictarg \<Rightarrow> attrs \<Rightarrow> graph \<Rightarrow> error option \<times> graph" where
  "add_node n layers attr_dict attr g =
     (if \<not> is_set layers then (Some AssertionError, g)
      else if \<not> all_str layers then (Some AssertionError, g)
      else
        case setup_attr_dict attr_dict (attr(''layers'' \<mapsto> layers)) of
          Inl e \<Rightarrow> (Some e, g)
        | Inr ad \<Rightarrow>
            if map_of (succ g) n = None then
              (None, g\<lparr>succ := AList.update n [] (succ g),
                        pred := AList.update n [] (pred g),
                        node := AList.update n ad (node g)\<rparr>)
            else
              (case map_of (node g) n of
                 None \<Rightarrow> (Some KeyError, g)
               | Some old \<Rightarrow>
                   (case old ''layers'' of
                      None \<Rightarrow> (Some KeyError, g)
                    | Some existing_layers \<Rightarrow>
                        (case py_union existing_layers layers of
                           Inl e \<Rightarrow> (Some e, g)
                         | Inr all_layers \<Rightarrow>
                             (None, g\<lparr>node := AList.update n
                                ((old ++ (ad(''layers'' := None)))(''layers'' \<mapsto> all_layers))
                                (node g)\<rparr>)))))"

subsection \<open>add_nodes_from\<close>

text \<open>One iteration of the loop over \<^verbatim>\<open>nodes\<close>, for the entry \<^verbatim>\<open>(node_id, ndict)\<close>.\<close>

definition add_nodes_from_step ::
  "nid \<times> attrs \<Rightarrow> attrs \<Rightarrow> graph \<Rightarrow> error option \<times> graph" where
  "add_nodes_from_step n additional_attribs g =
     (case n of (node_id, ndict) \<Rightarrow>
        (case ndict ''layers'' of
           None \<Rightarrow> (Some AssertionError, g)
         | Some layers \<Rightarrow>
             if \<not> is_set layers then (Some AssertionError, g)
             else if \<not> all_str layers then (Some AssertionError, g)
             else if map_of (succ g) node_id = None then
               (None, g\<lparr>succ := AList.update node_id [] (succ g),
                         pred := AList.update node_id [] (pred g),
                         node := AList.update node_id (additional_attribs ++ ndict) (node g)\<rparr>)
             else
               (case map_of (node g) node_id of
                  None \<Rightarrow> (Some KeyError, g)
                | Some old \<Rightarrow>
                    (case old ''layers'' of
                       None \<Rightarrow> (Some KeyError, g)
                     | Some existing_layers \<Rightarrow>
                         (case py_union existing_layers layers of
                            Inl e \<Rightarrow> (Some e, g)
                          | Inr all_layers \<Rightarrow>
                              (None, g\<lparr>node := AList.update node_id
                                 ((old ++ ndict ++ additional_attribs)(''layers'' \<mapsto> all_layers))
                                 (node g)\<rparr>))))))"

fun add_nodes_from :: "(nid \<times> attrs) list \<Rightarrow> attrs \<Rightarrow> graph \<Rightarrow> error option \<times> graph" where
  "add_nodes_from [] additional_attribs g = (None, g)"
| "add_nodes_from (n # nodes) additional_attribs g =
     (case add_nodes_from_step n additional_attribs g of
        (Some e, g') \<Rightarrow> (Some e, g')
      | (None, g') \<Rightarrow> add_nodes_from nodes additional_attribs g')"

subsection \<open>add_edge\<close>

definition add_edge ::
  "nid \<Rightarrow> nid \<Rightarrow> pyval \<Rightarrow> pyval \<Rightarrow> dictarg \<Rightarrow> attrs \<Rightarrow> graph \<Rightarrow> error option \<times> graph" where
  "add_edge u v layers key attr_dict attr g =
     (if \<not> is_set layers then (Some AssertionError, g)
      else if \<not> all_str layers then (Some AssertionError, g)
      else
        case setup_attr_dict attr_dict (attr(''layers'' \<mapsto> layers)) of
          Inl e \<Rightarrow> (Some e, g)
        | Inr ad \<Rightarrow>
            (case map_of (succ g) u of
               None \<Rightarrow> (Some AssertionError, g)
             | Some nbrs \<Rightarrow>
                 if map_of (succ g) v = None then (Some AssertionError, g)
                 else
                   (case map_of nbrs v of
                      Some r \<Rightarrow>
                        (let keydict = heap g r;
                             key' = (if key = VNone
                                     then VInt (find_key keydict (int (length keydict)))
                                     else key)
                         in if \<not> hashable key' then (Some TypeError, g)
                            else
                              (let datadict = (case map_of keydict key' of
                                                 None \<Rightarrow> Map.empty | Some d \<Rightarrow> d);
                                   existing_layers = (case datadict ''layers'' of
                                                        None \<Rightarrow> VSet {||} | Some x \<Rightarrow> x)
                               in case py_union existing_layers layers of
                                    Inl e \<Rightarrow> (Some e, g)
                                  | Inr all_layers \<Rightarrow>
                                      (None, g\<lparr>heap := (heap g)(r := AList.update key'
                                         ((datadict ++ ad)(''layers'' \<mapsto> all_layers)) keydict)\<rparr>)))
                    | None \<Rightarrow>
                        (let key' = (if key = VNone then VInt 0 else key)
                         in if \<not> hashable key' then (Some TypeError, g)
                            else
                              (let r = nref g;
                                   g1 = g\<lparr>heap := (heap g)(r := [(key', Map.empty ++ ad)]),
                                          nref := Suc r,
                                          succ := AList.update u (AList.update v r nbrs) (succ g)\<rparr>
                               in case map_of (pred g1) v of
                                    None \<Rightarrow> (Some KeyError, g1)
                                  | Some pnbrs \<Rightarrow>
                                      (None, g1\<lparr>pred := AList.update v (AList.update u r pnbrs)
                                                          (pred g1)\<rparr>))))))"

subsection \<open>add_edges_from\<close>

text \<open>
  An element of \<^verbatim>\<open>ebunch\<close>: a 3-tuple \<^verbatim>\<open>(u, v, d)\<close>, a 4-tuple \<^verbatim>\<open>(u, v, k, d)\<close>, or a
  tuple of any other length.
\<close>

datatype ebunch_entry = E3 nid nid attrs | E4 nid nid pyval attrs | EOther

text \<open>
  The body of the loop once the tuple is unpacked. \<^verbatim>\<open>additional_layers\<close> is
  \<^verbatim>\<open>attr_dict.get('layers', {})\<close>; the default, an empty dictionary, is \<open>None\<close> here.
  When the edge exists already, \<^verbatim>\<open>datadict\<close> is the edge's own dictionary and the two
  \<^verbatim>\<open>datadict.update\<close> calls change it in place, before \<^verbatim>\<open>add_edge\<close> is called.
\<close>

definition add_edges_from_edge ::
  "nid \<Rightarrow> nid \<Rightarrow> pyval \<Rightarrow> attrs \<Rightarrow> attrs \<Rightarrow> graph \<Rightarrow> error option \<times> graph" where
  "add_edges_from_edge u v key dd attr_dict g =
     (case dd ''layers'' of
        None \<Rightarrow> (Some AssertionError, g)
      | Some layers \<Rightarrow>
          if \<not> is_set layers then (Some AssertionError, g)
          else if \<not> all_str layers then (Some AssertionError, g)
          else
            (let additional_layers = attr_dict ''layers'';
                 additional_bad =
                   (case additional_layers of
                      None \<Rightarrow> False
                    | Some al \<Rightarrow> truthy al \<and> (\<not> is_set al \<or> \<not> all_str al))
             in if additional_bad then (Some AssertionError, g)
                else
                  case (case additional_layers of
                          None \<Rightarrow> Inr layers
                        | Some al \<Rightarrow> py_union layers al) of
                    Inl e \<Rightarrow> (Some e, g)
                  | Inr new_layers \<Rightarrow>
                      (let kref = (case map_of (succ g) u of
                                     None \<Rightarrow> None | Some nbrs \<Rightarrow> map_of nbrs v);
                           keydict = (case kref of None \<Rightarrow> [] | Some r \<Rightarrow> heap g r);
                           key' = (if key = VNone
                                   then VInt (find_key keydict (int (length keydict)))
                                   else key)
                       in if \<not> hashable key' then (Some TypeError, g)
                          else
                            (let found = map_of keydict key';
                                 datadict0 = (case found of None \<Rightarrow> Map.empty | Some d \<Rightarrow> d);
                                 existing_layers = (case datadict0 ''layers'' of
                                                      None \<Rightarrow> VSet {||} | Some x \<Rightarrow> x);
                                 datadict = datadict0 ++ attr_dict ++ dd;
                                 g1 = (case kref of
                                         None \<Rightarrow> g
                                       | Some r \<Rightarrow>
                                           (case found of
                                              None \<Rightarrow> g
                                            | Some _ \<Rightarrow>
                                                g\<lparr>heap := (heap g)(r :=
                                                   AList.update key' datadict keydict)\<rparr>));
                                 updated_attrs = datadict(''layers'' := None)
                             in case py_union existing_layers new_layers of
                                  Inl e \<Rightarrow> (Some e, g1)
                                | Inr all_layers \<Rightarrow>
                                    add_edge u v all_layers key' (ArgDict updated_attrs)
                                      Map.empty g1))))"

definition add_edges_from_step ::
  "ebunch_entry \<Rightarrow> attrs \<Rightarrow> graph \<Rightarrow> error option \<times> graph" where
  "add_edges_from_step e attr_dict g =
     (case e of
        E4 u v key dd \<Rightarrow> add_edges_from_edge u v key dd attr_dict g
      | E3 u v dd \<Rightarrow> add_edges_from_edge u v VNone dd attr_dict g
      | EOther \<Rightarrow> (Some AttributeError, g))"

fun add_edges_from_loop ::
  "ebunch_entry list \<Rightarrow> attrs \<Rightarrow> graph \<Rightarrow> error option \<times> graph" where
  "add_edges_from_loop [] attr_dict g = (None, g)"
| "add_edges_from_loop (e # ebunch) attr_dict g =
     (case add_edges_from_step e attr_dict g of
        (Some err, g') \<Rightarrow> (Some err, g')
      | (None, g') \<Rightarrow> add_edges_from_loop ebunch attr_dict g')"

definition add_edges_from ::
  "ebunch_entry list \<Rightarrow> dictarg \<Rightarrow> attrs \<Rightarrow> graph \<Rightarrow> error option \<times> graph" where
  "add_edges_from ebunch attr_dict attr g =
     (case setup_attr_dict attr_dict attr of
        Inl e \<Rightarrow> (Some e, g)
      | Inr ad \<Rightarrow> add_edges_from_loop ebunch ad g)"

subsection \<open>Iteration over nodes and edges\<close>

text \<open>
  What the module uses of \<^verbatim>\<open>networkx.MultiDiGraph\<close>: \<^verbatim>\<open>nodes(data=True)\<close> lists the
  items of \<^verbatim>\<open>node\<close>; \<^verbatim>\<open>edges(data=True)\<close> runs through \<^verbatim>\<open>adj\<close>, then through the
  neighbours of each node, then through the keys of each \<^verbatim>\<open>keydict\<close>, and yields
  \<^verbatim>\<open>(u, v, data)\<close>; \<^verbatim>\<open>out_edges_iter(n, data=True)\<close> does the same for the one node
  \<^verbatim>\<open>n\<close> (and yields nothing for an identifier that has no adjacency entry).
\<close>

definition nodes_data :: "graph \<Rightarrow> (nid \<times> attrs) list" where
  "nodes_data g = node g"

definition nbrs_edges :: "graph \<Rightarrow> nid \<Rightarrow> (nid \<times> nat) list \<Rightarrow> (nid \<times> nid \<times> attrs) list" where
  "nbrs_edges g u nbrs =
     concat (map (\<lambda>(v, r). map (\<lambda>(k, d). (u, v, d)) (heap g r)) nbrs)"

definition edges_data :: "graph \<Rightarrow> (nid \<times> nid \<times> attrs) list" where
  "edges_data g = concat (map (\<lambda>(u, nbrs). nbrs_edges g u nbrs) (succ g))"

definition out_edges_iter :: "graph \<Rightarrow> nid \<Rightarrow> (nid \<times> nid \<times> attrs) list" where
  "out_edges_iter g n =
     (case map_of (succ g) n of None \<Rightarrow> [] | Some nbrs \<Rightarrow> nbrs_edges g n nbrs)"

subsection \<open>get_tokens and merge_graphs\<close>

text \<open>
  \<^verbatim>\<open>get_tokens\<close> is a generator: the item for a token is computed when the consumer
  asks for it, and computing it raises \<open>KeyError\<close> when the token is not a node or has no
  token attribute. The model lists, for every token, the item or the exception.
\<close>

definition get_token :: "graph \<Rightarrow> string \<Rightarrow> nid \<Rightarrow> error + (nid \<times> pyval)" where
  "get_token g token_attrib token_id =
     (case map_of (node g) token_id of
        None \<Rightarrow> Inl KeyError
      | Some a \<Rightarrow>
          (case a (ns g @ '':'' @ token_attrib) of
             None \<Rightarrow> Inl KeyError
           | Some t \<Rightarrow> Inr (token_id, t)))"

definition get_tokens :: "graph \<Rightarrow> string \<Rightarrow> (error + (nid \<times> pyval)) list" where
  "get_tokens g token_attrib = map (get_token g token_attrib) (tokens g)"

text \<open>\<^verbatim>\<open>list(generator)\<close>: all items, or the first exception.\<close>

fun list_of_generator :: "(error + 'a) list \<Rightarrow> error + 'a list" where
  "list_of_generator [] = Inr []"
| "list_of_generator (Inl e # xs) = Inl e"
| "list_of_generator (Inr x # xs) =
     (case list_of_generator xs of Inl e \<Rightarrow> Inl e | Inr ys \<Rightarrow> Inr (x # ys))"

text \<open>
  The loop \<^verbatim>\<open>for i, (local_tok_id, local_tok) in enumerate(local_tokens)\<close> of
  \<^verbatim>\<open>merge_graphs\<close>, from index \<open>i\<close> on, building \<^verbatim>\<open>remote2local\<close>.
\<close>

fun align_tokens ::
  "(error + (nid \<times> pyval)) list \<Rightarrow> (nid \<times> pyval) list \<Rightarrow> nat \<Rightarrow> (nid \<rightharpoonup> nid)
     \<Rightarrow> error + (nid \<rightharpoonup> nid)" where
  "align_tokens [] remote_tokens i remote2local = Inr remote2local"
| "align_tokens (Inl e # local_tokens) remote_tokens i remote2local = Inl e"
| "align_tokens (Inr (local_tok_id, local_tok) # local_tokens) remote_tokens i remote2local =
     (if \<not> i < length remote_tokens then Inl IndexError
      else
        (case remote_tokens ! i of
           (remote_tok_id, remote_tok) \<Rightarrow>
             if local_tok \<noteq> remote_tok then Inl ValueError
             else align_tokens local_tokens remote_tokens (Suc i)
                    (remote2local(remote_tok_id \<mapsto> local_tok_id))))"

text \<open>
  Modelled from the spec: \<^verbatim>\<open>relabel_nodes\<close> of \<^verbatim>\<open>discoursegraphs.relabel\<close> is not among
  the sources. The specification says that it relabels all of the other graph's node ids
  through the map, in place, and that ids outside the map are unaffected.
\<close>

definition relabel_id :: "(nid \<rightharpoonup> nid) \<Rightarrow> nid \<Rightarrow> nid" where
  "relabel_id mapping n = (case mapping n of None \<Rightarrow> n | Some n' \<Rightarrow> n')"

definition relabel_nodes :: "graph \<Rightarrow> (nid \<rightharpoonup> nid) \<Rightarrow> graph" where
  "relabel_nodes g mapping =
     g\<lparr>node := map (\<lambda>(n, a). (relabel_id mapping n, a)) (node g),
       succ := map (\<lambda>(u, nbrs). (relabel_id mapping u,
                  map (\<lambda>(v, r). (relabel_id mapping v, r)) nbrs)) (succ g),
       pred := map (\<lambda>(v, nbrs). (relabel_id mapping v,
                  map (\<lambda>(u, r). (relabel_id mapping u, r)) nbrs)) (pred g)\<rparr>"

text \<open>
  \<^verbatim>\<open>merge_graphs\<close> returns the exception, if any, and the state of \<^verbatim>\<open>self\<close>. The other
  graph is a different object; what happens to it is not part of the result.
\<close>

definition merge_graphs :: "graph \<Rightarrow> graph \<Rightarrow> error option \<times> graph" where
  "merge_graphs self document_graph =
     (let local_tokens = (if ns self = ''tiger'' then get_tokens self ''word''
                          else get_tokens self ''token'')
      in case list_of_generator (get_tokens document_graph ''token'') of
           Inl e \<Rightarrow> (Some e, self)
         | Inr remote_tokens \<Rightarrow>
             (case align_tokens local_tokens remote_tokens 0 Map.empty of
                Inl e \<Rightarrow> (Some e, self)
              | Inr remote2local \<Rightarrow>
                  (let dg = relabel_nodes document_graph remote2local
                   in case add_nodes_from (nodes_data dg) Map.empty self of
                        (Some e, self') \<Rightarrow> (Some e, self')
                      | (None, self') \<Rightarrow>
                          add_edges_from (map (\<lambda>(u, v, d). E3 u v d) (edges_data dg))
                            ArgNone Map.empty self')))"

subsection \<open>add_precedence_relations\<close>

definition precedence_layers :: "graph \<Rightarrow> pyval" where
  "precedence_layers g = VSet {|AStr (ns g), AStr (ns g @ '':precedence'')|}"




subsection \<open>get_span\<close>

text \<open>
  The loop of \<^verbatim>\<open>get_span\<close> over the outgoing edges; \<open>rec\<close> is the recursive call. The
  statement \<^verbatim>\<open>if from_id == to_id: pass\<close> does nothing and the next \<^verbatim>\<open>if\<close> is not an
  \<^verbatim>\<open>elif\<close>, so a self-loop is handled as every other edge.
\<close>

fun span_loop ::
  "(nid \<Rightarrow> error + nid list) \<Rightarrow> graph \<Rightarrow> (nid \<times> nid \<times> attrs) list \<Rightarrow> nid list
     \<Rightarrow> error + nid list" where
  "span_loop rec g [] span = Inr span"
| "span_loop rec g ((from_id, to_id, edge_attribs) # es) span =
     (case edge_attribs ''edge_type'' of
        None \<Rightarrow> Inl KeyError
      | Some edge_type \<Rightarrow>
          if edge_type \<noteq> VEnum pointing_relation then
            (case map_of (node g) to_id of
               None \<Rightarrow> Inl KeyError
             | Some a \<Rightarrow>
                 if a (ns g @ '':token'') \<noteq> None then span_loop rec g es (span @ [to_id])
                 else
                   (case rec to_id of
                      Inl e \<Rightarrow> Inl e
                    | Inr sub \<Rightarrow> span_loop rec g es (span @ sub)))
          else span_loop rec g es span)"

text \<open>
  \<^verbatim>\<open>get_span\<close> recurses without a guard; \<open>fuel\<close> is the recursion depth that Python
  allows, and running out of it is the \<open>RuntimeError\<close> of the interpreter.
  \<^verbatim>\<open>natural_sort_key\<close> of \<^verbatim>\<open>discoursegraphs.util\<close> is not among the sources: it is the
  parameter \<open>key\<close>. Python's \<^verbatim>\<open>sorted\<close> is stable, as \<open>sort_key\<close> is.
\<close>

primrec get_span :: "nat \<Rightarrow> (nid \<Rightarrow> 'k::linorder) \<Rightarrow> graph \<Rightarrow> nid \<Rightarrow> error + nid list" where
  "get_span 0 key g node_id = Inl RuntimeError"
| "get_span (Suc fuel) key g node_id =
     (case span_loop (get_span fuel key g) g (out_edges_iter g node_id) [] of
        Inl e \<Rightarrow> Inl e
      | Inr span \<Rightarrow> Inr (sort_key key span))"

subsection \<open>Chains of pointing relations\<close>

text \<open>
  \<^verbatim>\<open>select_edges_by_edgetype(docgraph, edge_type)\<close> with \<^verbatim>\<open>data=False\<close>, consumed to
  its end: the pairs selected, or the \<open>KeyError\<close> of an edge without \<^verbatim>\<open>edge_type\<close>.
\<close>

fun select_loop :: "pyval \<Rightarrow> (nid \<times> nid \<times> attrs) list \<Rightarrow> error + (nid \<times> nid) list" where
  "select_loop edge_type [] = Inr []"
| "select_loop edge_type ((from_id, to_id, edge_attribs) # es) =
     (case edge_attribs ''edge_type'' of
        None \<Rightarrow> Inl KeyError
      | Some t \<Rightarrow>
          (case select_loop edge_type es of
             Inl e \<Rightarrow> Inl e
           | Inr ps \<Rightarrow> Inr (if t = edge_type then (from_id, to_id) # ps else ps)))"









section \<open>Inputs and the specification's vocabulary\<close>

text \<open>A set of layer names, as a caller writes it: \<^verbatim>\<open>{'a', 'b'}\<close>.\<close>

definition layer_set :: "string list \<Rightarrow> pyval" where
  "layer_set xs = VSet (fset_of_list (map AStr xs))"

text \<open>A graph with the two nodes \<^verbatim>\<open>u\<close> and \<^verbatim>\<open>v\<close> and no edge.\<close>

definition two_nodes :: graph where
  "two_nodes =
     snd (add_node ''v'' (layer_set [''l'']) ArgNone Map.empty
       (snd (add_node ''u'' (layer_set [''l'']) ArgNone Map.empty
          (empty_graph ''x'' ''r'' [] ''doc''))))"

text \<open>The same graph with two parallel edges from \<^verbatim>\<open>u\<close> to \<^verbatim>\<open>v\<close>, under the keys 0 and 5.\<close>

definition keys_0_5 :: graph where
  "keys_0_5 =
     snd (add_edge ''u'' ''v'' (layer_set [''l'']) (VInt 5) ArgNone Map.empty
       (snd (add_edge ''u'' ''v'' (layer_set [''l'']) (VInt 0) ArgNone Map.empty two_nodes)))"

text \<open>A graph with the single node \<^verbatim>\<open>n\<close>.\<close>

definition one_node :: graph where
  "one_node =
     snd (add_node ''n'' (layer_set [''a'']) ArgNone Map.empty (empty_graph ''x'' ''r'' [] ''doc''))"

text \<open>
  What makes an entry of an edge bunch invalid: it is neither a 3-tuple nor a 4-tuple, or
  its attribute dictionary has no \<^verbatim>\<open>layers\<close>, or \<^verbatim>\<open>layers\<close> is not a set of strings.
\<close>

definition entry_attrs :: "ebunch_entry \<Rightarrow> attrs option" where
  "entry_attrs e =
     (case e of E3 u v dd \<Rightarrow> Some dd | E4 u v k dd \<Rightarrow> Some dd | EOther \<Rightarrow> None)"

definition not_str_set :: "pyval \<Rightarrow> bool" where
  "not_str_set x =
     ((\<nexists>s. x = VSet s) \<or> (\<exists>s a. x = VSet s \<and> a |\<in>| s \<and> (\<nexists>str. a = AStr str)))"

definition invalid_entry :: "ebunch_entry \<Rightarrow> bool" where
  "invalid_entry e =
     (case entry_attrs e of
        None \<Rightarrow> True
      | Some dd \<Rightarrow> (case dd ''layers'' of None \<Rightarrow> True | Some x \<Rightarrow> not_str_set x))"

text \<open>
  A graph in the namespace \<^verbatim>\<open>x\<close> with the token \<^verbatim>\<open>t1\<close> and the node \<^verbatim>\<open>n1\<close>, which is not
  a token, and three dominance edges: from \<^verbatim>\<open>n1\<close> to itself, from \<^verbatim>\<open>n1\<close> to \<^verbatim>\<open>t1\<close>, and
  from \<^verbatim>\<open>t1\<close> to itself.
\<close>

definition dominance :: attrs where
  "dominance = [''edge_type'' \<mapsto> VEnum dominance_relation]"

definition looped_graph :: graph where
  "looped_graph =
     snd (add_edge ''t1'' ''t1'' (layer_set [''x'']) VNone ArgNone dominance
       (snd (add_edge ''n1'' ''t1'' (layer_set [''x'']) VNone ArgNone dominance
         (snd (add_edge ''n1'' ''n1'' (layer_set [''x'']) VNone ArgNone dominance
           (snd (add_node ''t1'' (layer_set [''x'']) ArgNone [''x:token'' \<mapsto> VStr ''word'']
             (snd (add_node ''n1'' (layer_set [''x'']) ArgNone Map.empty
               (empty_graph ''x'' ''n1'' [''t1''] ''doc''))))))))))"

text \<open>
  The token text that \<^verbatim>\<open>get_tokens\<close> reads for a token, if there is one, and the attribute
  name that \<^verbatim>\<open>merge_graphs\<close> uses for the tokens of \<^verbatim>\<open>self\<close>.
\<close>

definition token_text :: "graph \<Rightarrow> string \<Rightarrow> nid \<Rightarrow> pyval option" where
  "token_text g token_attrib t =
     (case map_of (node g) t of None \<Rightarrow> None | Some a \<Rightarrow> a (ns g @ '':'' @ token_attrib))"

definition local_attrib :: "graph \<Rightarrow> string" where
  "local_attrib g = (if ns g = ''tiger'' then ''word'' else ''token'')"

text \<open>
  Three documents: \<open>short_doc\<close> has the one token \<^verbatim>\<open>a\<close>, \<open>long_doc\<close> the tokens \<^verbatim>\<open>a b\<close>
  and \<open>other_doc\<close> the one token \<^verbatim>\<open>c\<close>.
\<close>

definition short_doc :: graph where
  "short_doc =
     snd (add_node ''t1'' (layer_set [''x'']) ArgNone [''x:token'' \<mapsto> VStr ''a'']
       (empty_graph ''x'' ''r'' [''t1''] ''short''))"

definition long_doc :: graph where
  "long_doc =
     snd (add_node ''s2'' (layer_set [''y'']) ArgNone [''y:token'' \<mapsto> VStr ''b'']
       (snd (add_node ''s1'' (layer_set [''y'']) ArgNone [''y:token'' \<mapsto> VStr ''a'']
         (empty_graph ''y'' ''r'' [''s1'', ''s2''] ''long''))))"

definition other_doc :: graph where
  "other_doc =
     snd (add_node ''s1'' (layer_set [''y'']) ArgNone [''y:token'' \<mapsto> VStr ''c'']
         (empty_graph ''y'' ''r'' [''s1''] ''other''))"


text \<open>
  The reference that \<^verbatim>\<open>succ[u][v]\<close> holds, and the one that \<^verbatim>\<open>pred[v][u]\<close> holds; the
  attribute dictionary \<^verbatim>\<open>succ[u][v][k]\<close>, and \<^verbatim>\<open>pred[v][u][k]\<close>.
\<close>

definition sref :: "graph \<Rightarrow> nid \<Rightarrow> nid \<Rightarrow> nat option" where
  "sref g u v = (case map_of (succ g) u of None \<Rightarrow> None | Some nbrs \<Rightarrow> map_of nbrs v)"

definition pref :: "graph \<Rightarrow> nid \<Rightarrow> nid \<Rightarrow> nat option" where
  "pref g v u = (case map_of (pred g) v of None \<Rightarrow> None | Some nbrs \<Rightarrow> map_of nbrs u)"

definition succ_edge :: "graph \<Rightarrow> nid \<Rightarrow> nid \<Rightarrow> pyval \<Rightarrow> attrs option" where
  "succ_edge g u v k = (case sref g u v of None \<Rightarrow> None | Some r \<Rightarrow> map_of (heap g r) k)"

definition pred_edge :: "graph \<Rightarrow> nid \<Rightarrow> nid \<Rightarrow> pyval \<Rightarrow> attrs option" where
  "pred_edge g v u k = (case pref g v u of None \<Rightarrow> None | Some r \<Rightarrow> map_of (heap g r) k)"

text \<open>
  A call of one of the four mutating methods, and a sequence of calls on one graph. A caller
  may catch an exception and go on, so the next call runs on the state that the previous
  one left.
\<close>

datatype operation =
    AddNode nid pyval dictarg attrs
  | AddNodesFrom "(nid \<times> attrs) list" attrs
  | AddEdge nid nid pyval pyval dictarg attrs
  | AddEdgesFrom "ebunch_entry list" dictarg attrs

fun apply_operation :: "operation \<Rightarrow> graph \<Rightarrow> error option \<times> graph" where
  "apply_operation (AddNode n layers attr_dict attr) g = add_node n layers attr_dict attr g"
| "apply_operation (AddNodesFrom nodes attr) g = add_nodes_from nodes attr g"
| "apply_operation (AddEdge u v layers key attr_dict attr) g = add_edge u v layers key attr_dict attr g"
| "apply_operation (AddEdgesFrom ebunch attr_dict attr) g = add_edges_from ebunch attr_dict attr g"

fun run_operations :: "operation list \<Rightarrow> graph \<Rightarrow> graph" where
  "run_operations [] g = g"
| "run_operations (op # ops) g = run_operations ops (snd (apply_operation op g))"

text \<open>
  The invariant of the adjacency dictionaries: \<^verbatim>\<open>succ[u][v]\<close> and \<^verbatim>\<open>pred[v][u]\<close> are the
  same object, and \<^verbatim>\<open>succ\<close> and \<^verbatim>\<open>pred\<close> have the same nodes.
\<close>

definition adj_inv :: "graph \<Rightarrow> bool" where
  "adj_inv g = ((\<forall>u v. sref g u v = pref g v u) \<and>
                (\<forall>n. (map_of (succ g) n = None) = (map_of (pred g) n = None)))"


text \<open>
  A call of \<^verbatim>\<open>add_node\<close> for one node, or of \<^verbatim>\<open>add_edge\<close> for one edge: the names in the
  \<^verbatim>\<open>layers\<close> set, the \<^verbatim>\<open>attr_dict\<close> argument (\<^verbatim>\<open>None\<close> or a dictionary of the call's own)
  and the keyword attributes. \<open>call_attrs\<close> is the attributes that the call supplies,
  \<open>latest calls k\<close> the value of the most recent call that supplies \<open>k\<close>, \<open>all_layers\<close> the
  union of the \<^verbatim>\<open>layers\<close> arguments.
\<close>

type_synonym call = "string list \<times> attrs option \<times> attrs"

definition call_layers :: "call \<Rightarrow> string list" where
  "call_layers c = fst c"




definition all_layers :: "call list \<Rightarrow> pyval" where
  "all_layers calls = layer_set (concat (map call_layers calls))"







definition heap_grows :: "graph \<Rightarrow> graph \<Rightarrow> bool" where
  "heap_grows g g' =
     (succ g' = succ g \<and> tokens g' = tokens g \<and> root g' = root g \<and> ns g' = ns g \<and>
      (\<forall>r. length (heap g r) \<le> length (heap g' r)) \<and>
      (\<forall>r k d. map_of (heap g r) k = Some d \<longrightarrow> map_of (heap g' r) k = Some d))"











section \<open>Basic facts\<close>

lemma is_set_simps [simp]:
  "is_set (VSet s)" "\<not> is_set VNone" "\<not> is_set (VInt i)" "\<not> is_set (VStr x)"
  "\<not> is_set (VEnum t)"
  by (simp_all add: is_set_def)

lemma is_str_simps [simp]: "is_str (AStr x)" "\<not> is_str (AInt i)"
  by (simp_all add: is_str_def)

lemma all_str_VSet [simp]: "all_str (VSet s) = (\<forall>a. a |\<in>| s \<longrightarrow> is_str a)"
  by (auto simp: all_str_def)

lemma all_str_layer_set [simp]: "all_str (layer_set xs)"
  by (auto simp: layer_set_def)

lemma is_set_layer_set [simp]: "is_set (layer_set xs)"
  by (simp add: layer_set_def)

lemma hashable_simps [simp]:
  "hashable (VInt i)" "hashable VNone" "hashable (VStr x)" "hashable (VEnum t)"
  "\<not> hashable (VSet s)"
  by (simp_all add: hashable_def)

lemma two_nodes_eq:
  "two_nodes =
     \<lparr>node = [(''u'', [''layers'' \<mapsto> layer_set [''l'']]),
              (''v'', [''layers'' \<mapsto> layer_set [''l'']])],
      succ = [(''u'', []), (''v'', [])], pred = [(''u'', []), (''v'', [])],
      heap = (\<lambda>_. []), nref = 0, ns = ''x'', root = ''r'', tokens = [], name = ''doc''\<rparr>"
  by (simp add: two_nodes_def add_node_def empty_graph_def setup_attr_dict_def layer_set_def)

lemma not_str_set_iff: "not_str_set x = (\<not> is_set x \<or> \<not> all_str x)"
proof (cases x)
  case (VSet s)
  have "(\<exists>a. a |\<in>| s \<and> (\<nexists>str. a = AStr str)) = (\<exists>a. a |\<in>| s \<and> \<not> is_str a)"
    by (metis atom.exhaust is_str_simps)
  then show ?thesis using VSet by (auto simp: not_str_set_def)
qed (auto simp: not_str_set_def all_str_def)

lemma add_edges_from_loop_append:
  "add_edges_from_loop (es @ es') ad g =
     (case add_edges_from_loop es ad g of
        (Some err, g') \<Rightarrow> (Some err, g')
      | (None, g') \<Rightarrow> add_edges_from_loop es' ad g')"
  by (induction es arbitrary: g) (auto split: prod.splits option.splits)

lemma invalid_entry_step:
  "invalid_entry e \<Longrightarrow>
   add_edges_from_step e ad g =
     (Some (if e = EOther then AttributeError else AssertionError), g)"
  by (cases e)
     (auto simp: invalid_entry_def entry_attrs_def add_edges_from_step_def
        add_edges_from_edge_def not_str_set_iff split: option.splits)

lemma looped_graph_edges:
  "out_edges_iter looped_graph ''n1'' =
     [(''n1'', ''n1'', dominance(''layers'' \<mapsto> layer_set [''x''])),
      (''n1'', ''t1'', dominance(''layers'' \<mapsto> layer_set [''x'']))]"
  "out_edges_iter looped_graph ''t1'' =
     [(''t1'', ''t1'', dominance(''layers'' \<mapsto> layer_set [''x'']))]"
  "map_of (node looped_graph) ''n1'' = Some [''layers'' \<mapsto> layer_set [''x'']]"
  "map_of (node looped_graph) ''t1'' =
     Some [''x:token'' \<mapsto> VStr ''word'', ''layers'' \<mapsto> layer_set [''x'']]"
  "ns looped_graph = ''x''"
  by (simp_all add: looped_graph_def out_edges_iter_def nbrs_edges_def add_edge_def add_node_def
       empty_graph_def setup_attr_dict_def layer_set_def py_union_def Let_def)

lemma get_token_text:
  "get_token g attrib t = (case token_text g attrib t of None \<Rightarrow> Inl KeyError | Some x \<Rightarrow> Inr (t, x))"
  by (simp add: get_token_def token_text_def split: option.splits)

lemma get_tokens_resolved:
  "\<forall>t\<in>set ts. token_text g attrib t \<noteq> None \<Longrightarrow>
   map (get_token g attrib) ts = map Inr (map (\<lambda>t. (t, the (token_text g attrib t))) ts)"
  by (induction ts) (auto simp: get_token_text)

lemma list_of_generator_Inr: "list_of_generator (map Inr xs) = Inr xs"
  by (induction xs) auto

lemma align_tokens_mismatch:
  "j < length ls \<Longrightarrow> k + j < length remote \<Longrightarrow> snd (ls ! j) \<noteq> snd (remote ! (k + j)) \<Longrightarrow>
   align_tokens (map Inr ls) remote k m = Inl ValueError"
proof (induction ls arbitrary: j k m)
  case Nil
  then show ?case by simp
next
  case (Cons a ls)
  obtain lid ltok where a: "a = (lid, ltok)" by (cases a)
  obtain rid rtok where r: "remote ! k = (rid, rtok)" by (cases "remote ! k")
  have k: "k < length remote" using Cons.prems(2) by simp
  show ?case
  proof (cases "ltok = rtok")
    case False
    then show ?thesis using a r k by simp
  next
    case True
    have "j \<noteq> 0"
    proof
      assume "j = 0"
      with Cons.prems(3) a r True show False by simp
    qed
    then obtain j' where j: "j = Suc j'" by (cases j) auto
    have "align_tokens (map Inr ls) remote (Suc k) (m(rid \<mapsto> lid)) = Inl ValueError"
      using Cons.prems j by (intro Cons.IH [of j']) auto
    then show ?thesis using a r k True by simp
  qed
qed

lemma short_doc_eq: "short_doc = \<lparr>node = [(''t1'', [''x:token'' \<mapsto> VStr ''a'', ''layers'' \<mapsto> layer_set [''x'']])],
   succ = [(''t1'', [])], pred = [(''t1'', [])], heap = (\<lambda>_. []), nref = 0, ns = ''x'', root = ''r'', tokens = [''t1''], name = ''short''\<rparr>"
  by (simp add: short_doc_def add_node_def empty_graph_def setup_attr_dict_def layer_set_def)

lemma long_doc_eq: "long_doc = \<lparr>node = [(''s1'', [''y:token'' \<mapsto> VStr ''a'', ''layers'' \<mapsto> layer_set [''y'']]), (''s2'', [''y:token'' \<mapsto> VStr ''b'', ''layers'' \<mapsto> layer_set [''y'']])],
   succ = [(''s1'', []), (''s2'', [])], pred = [(''s1'', []), (''s2'', [])], heap = (\<lambda>_. []), nref = 0, ns = ''y'', root = ''r'', tokens = [''s1'', ''s2''], name = ''long''\<rparr>"
  by (simp add: long_doc_def add_node_def empty_graph_def setup_attr_dict_def layer_set_def)

lemma other_doc_eq: "other_doc = \<lparr>node = [(''s1'', [''y:token'' \<mapsto> VStr ''c'', ''layers'' \<mapsto> layer_set [''y'']])],
   succ = [(''s1'', [])], pred = [(''s1'', [])], heap = (\<lambda>_. []), nref = 0, ns = ''y'', root = ''r'', tokens = [''s1''], name = ''other''\<rparr>"
  by (simp add: other_doc_def add_node_def empty_graph_def setup_attr_dict_def layer_set_def)


lemma adj_inv_heap [simp]: "adj_inv (g\<lparr>heap := h\<rparr>) = adj_inv g"
  by (simp add: adj_inv_def sref_def pref_def)

lemma adj_inv_node [simp]: "adj_inv (g\<lparr>node := h\<rparr>) = adj_inv g"
  by (simp add: adj_inv_def sref_def pref_def)

lemma adj_inv_new_node:
  assumes "adj_inv g" and "map_of (succ g) n = None"
  shows "adj_inv (g\<lparr>succ := AList.update n [] (succ g), pred := AList.update n [] (pred g)\<rparr>)"
proof -
  have p: "map_of (pred g) n = None" using assms by (simp add: adj_inv_def)
  have a: "\<And>u v. sref g u v = pref g v u" using assms by (simp add: adj_inv_def)
  have s1: "\<And>v. pref g v n = None" using a [of n] assms(2) by (simp add: sref_def)
  have s2: "\<And>u. sref g u n = None" using a [of _ n] p by (simp add: pref_def)
  show ?thesis
    using assms s1 s2 unfolding adj_inv_def
    by (auto simp: sref_def pref_def update_conv')
qed

lemma adj_inv_add_node: "adj_inv g \<Longrightarrow> adj_inv (snd (add_node n layers attr_dict attr g))"
  by (auto simp: add_node_def adj_inv_new_node split: sum.splits option.splits)

lemma adj_inv_add_nodes_from_step:
  "adj_inv g \<Longrightarrow> adj_inv (snd (add_nodes_from_step e attr g))"
  by (cases e) (auto simp: add_nodes_from_step_def adj_inv_new_node split: sum.splits option.splits)

lemma adj_inv_add_nodes_from: "adj_inv g \<Longrightarrow> adj_inv (snd (add_nodes_from nodes attr g))"
proof (induction nodes arbitrary: g)
  case Nil
  then show ?case by simp
next
  case (Cons e nodes)
  obtain r g' where s: "add_nodes_from_step e attr g = (r, g')" by (cases "add_nodes_from_step e attr g")
  have "adj_inv g'" using adj_inv_add_nodes_from_step [OF Cons.prems, of e attr] s by simp
  then show ?case using s Cons.IH [of g'] by (cases r) simp_all
qed

lemma sref_new_edge:
  "map_of (succ g) u = Some nbrs \<Longrightarrow>
   sref (g\<lparr>heap := h, nref := m, succ := AList.update u (AList.update v r nbrs) (succ g),
            pred := p\<rparr>) a b = (if a = u \<and> b = v then Some r else sref g a b)"
  by (simp add: sref_def update_conv')

lemma pref_new_edge:
  "map_of (pred g) v = Some pnbrs \<Longrightarrow>
   pref (g\<lparr>heap := h, nref := m, succ := s,
            pred := AList.update v (AList.update u r pnbrs) (pred g)\<rparr>) b a =
     (if a = u \<and> b = v then Some r else pref g b a)"
  by (simp add: pref_def update_conv')

lemma adj_inv_new_edge:
  assumes "adj_inv g" and "map_of (succ g) u = Some nbrs" and "map_of (pred g) v = Some pnbrs"
  shows "adj_inv (g\<lparr>heap := h, nref := m, succ := AList.update u (AList.update v r nbrs) (succ g),
                     pred := AList.update v (AList.update u r pnbrs) (pred g)\<rparr>)"
proof -
  have a: "\<And>a b. sref g a b = pref g b a"
    and d: "\<And>n. (map_of (succ g) n = None) = (map_of (pred g) n = None)"
    using assms(1) by (simp_all add: adj_inv_def)
  have pu: "\<exists>y. map_of (pred g) u = Some y"
    using d [of u] assms(2) by auto
  have sv: "\<exists>y. map_of (succ g) v = Some y"
    using d [of v] assms(3) by auto
  show ?thesis
    unfolding adj_inv_def sref_new_edge [OF assms(2)] pref_new_edge [OF assms(3)]
    using a d assms(2,3) pu sv by (simp add: update_conv')
qed

lemma adj_inv_add_edge: "adj_inv g \<Longrightarrow> adj_inv (snd (add_edge u v layers key attr_dict attr g))"
proof -
  assume inv: "adj_inv g"
  have d: "\<And>n. (map_of (succ g) n = None) = (map_of (pred g) n = None)"
    using inv by (simp add: adj_inv_def)
  have nopred: "map_of (pred g) n \<noteq> None" if "map_of (succ g) n \<noteq> None" for n
    using that d by simp
  show ?thesis
    using inv nopred [of v]
    by (auto simp: add_edge_def Let_def adj_inv_new_edge split: sum.splits option.splits)
qed

lemma adj_inv_add_edges_from_step:
  "adj_inv g \<Longrightarrow> adj_inv (snd (add_edges_from_step e ad g))"
  by (cases e)
     (auto simp: add_edges_from_step_def add_edges_from_edge_def Let_def adj_inv_add_edge
        split: sum.splits option.splits)

lemma adj_inv_add_edges_from_loop: "adj_inv g \<Longrightarrow> adj_inv (snd (add_edges_from_loop es ad g))"
proof (induction es arbitrary: g)
  case Nil
  then show ?case by simp
next
  case (Cons e es)
  obtain r g' where s: "add_edges_from_step e ad g = (r, g')" by (cases "add_edges_from_step e ad g")
  have "adj_inv g'" using adj_inv_add_edges_from_step [OF Cons.prems, of e ad] s by simp
  then show ?case using s Cons.IH [of g'] by (cases r) simp_all
qed

lemma adj_inv_add_edges_from: "adj_inv g \<Longrightarrow> adj_inv (snd (add_edges_from es attr_dict attr g))"
  by (auto simp: add_edges_from_def adj_inv_add_edges_from_loop split: sum.splits)

lemma adj_inv_apply: "adj_inv g \<Longrightarrow> adj_inv (snd (apply_operation op g))"
  by (cases op) (simp_all add: adj_inv_add_node adj_inv_add_nodes_from adj_inv_add_edge adj_inv_add_edges_from)

lemma adj_inv_run: "adj_inv g \<Longrightarrow> adj_inv (run_operations ops g)"
  by (induction ops arbitrary: g) (simp_all add: adj_inv_apply)

lemma adj_inv_empty: "adj_inv (empty_graph nsp r toks nm)"
  by (simp add: adj_inv_def empty_graph_def sref_def pref_def)


















lemma heap_grows_refl [simp]: "heap_grows g g"
  by (simp add: heap_grows_def)





lemma precedence_layers_ok [simp]:
  "is_set (precedence_layers g)" "all_str (precedence_layers g)"
  "py_union (VSet {||}) (precedence_layers g) = Inr (precedence_layers g)"
  by (simp_all add: precedence_layers_def py_union_def)




































text \<open>
  An edge whose \<^verbatim>\<open>edge_type\<close> is the member \<^verbatim>\<open>EdgeTypes.pointing_relation\<close> of the enumeration
  is not equal to the string \<^verbatim>\<open>'points_to'\<close>, so \<^verbatim>\<open>select_edges_by_edgetype\<close> with the
  string, as \<^verbatim>\<open>get_pointing_chains\<close> calls it, does not select it.
\<close>

lemma enum_tag_not_selected:
  "select_loop (VStr ''points_to'') [(u, v, [''edge_type'' \<mapsto> VEnum pointing_relation])] = Inr []"
  by simp

section \<open>The claims\<close>

subsection \<open>C1: layers are united, other attributes overwritten\<close>



subsection \<open>C2: merging graphs with different tokens\<close>

text \<open>
  C2, as stated, fails for a difference in the number of tokens: when the other graph has
  the tokens of \<^verbatim>\<open>self\<close> and one more, the loop over the tokens of \<^verbatim>\<open>self\<close> ends without a
  mismatch, nothing is raised, and the nodes of the other graph are added to \<^verbatim>\<open>self\<close>.
\<close>

theorem C2_longer_other_merges_counterexample:
  "length (tokens short_doc) \<noteq> length (tokens long_doc) \<and>
   fst (merge_graphs short_doc long_doc) = None \<and>
   map fst (node (snd (merge_graphs short_doc long_doc))) = [''t1'', ''s2''] \<and>
   map fst (node short_doc) = [''t1'']"
  by (simp add: short_doc_eq long_doc_eq merge_graphs_def get_tokens_def get_token_def
      relabel_nodes_def relabel_id_def nodes_data_def edges_data_def add_nodes_from_step_def
      add_edges_from_def setup_attr_dict_def py_union_def layer_set_def Let_def nbrs_edges_def)

text \<open>
  C2, amended: when every token of both graphs has its token text and the texts differ at a
  position that both token sequences have, \<^verbatim>\<open>merge_graphs\<close> raises the tokenization mismatch
  (a \<open>ValueError\<close>) and leaves \<^verbatim>\<open>self\<close> as it was.
\<close>

theorem C2_text_mismatch_rejected:
  assumes "\<forall>t\<in>set (tokens self). token_text self (local_attrib self) t \<noteq> None"
      and "\<forall>t\<in>set (tokens other). token_text other ''token'' t \<noteq> None"
      and "i < length (tokens self)" and "i < length (tokens other)"
      and "token_text self (local_attrib self) (tokens self ! i) \<noteq>
           token_text other ''token'' (tokens other ! i)"
  shows "merge_graphs self other = (Some ValueError, self)"
proof -
  let ?ls = "map (\<lambda>t. (t, the (token_text self (local_attrib self) t))) (tokens self)"
  let ?rs = "map (\<lambda>t. (t, the (token_text other ''token'' t))) (tokens other)"
  have loc: "(if ns self = ''tiger'' then get_tokens self ''word'' else get_tokens self ''token'')
               = map Inr ?ls"
    using get_tokens_resolved [OF assms(1)]
    by (cases "ns self = ''tiger''") (simp_all add: get_tokens_def local_attrib_def)
  have rem: "list_of_generator (get_tokens other ''token'') = Inr ?rs"
    by (simp only: get_tokens_def get_tokens_resolved [OF assms(2)] list_of_generator_Inr)
  have "token_text self (local_attrib self) (tokens self ! i) \<noteq> None"
       "token_text other ''token'' (tokens other ! i) \<noteq> None"
    using assms(1-4) by auto
  then have "snd (?ls ! i) \<noteq> snd (?rs ! (0 + i))"
    using assms(3-5) by auto
  then have "align_tokens (map Inr ?ls) ?rs 0 Map.empty = Inl ValueError"
    using assms(3,4) by (intro align_tokens_mismatch [of i]) auto
  then show ?thesis
    using loc rem by (simp add: merge_graphs_def)
qed

text \<open>C2, amended, for the documents \<^verbatim>\<open>a\<close> and \<^verbatim>\<open>c\<close>.\<close>

theorem C2_text_mismatch_rejected_witness: "merge_graphs short_doc other_doc = (Some ValueError, short_doc)"
proof -
  have 1: "\<forall>t\<in>set (tokens short_doc). token_text short_doc (local_attrib short_doc) t \<noteq> None"
    by (simp add: short_doc_eq token_text_def local_attrib_def)
  have 2: "\<forall>t\<in>set (tokens other_doc). token_text other_doc ''token'' t \<noteq> None"
    by (simp add: other_doc_eq token_text_def)
  have 3: "0 < length (tokens short_doc)" by (simp add: short_doc_eq)
  have 4: "0 < length (tokens other_doc)" by (simp add: other_doc_eq)
  have 5: "token_text short_doc (local_attrib short_doc) (tokens short_doc ! 0) \<noteq>
           token_text other_doc ''token'' (tokens other_doc ! 0)"
    by (simp add: short_doc_eq other_doc_eq token_text_def local_attrib_def)
  show ?thesis using C2_text_mismatch_rejected [OF 1 2 3 4 5] .
qed

subsection \<open>C3: the layers argument is validated\<close>




subsection \<open>C4: add_precedence_relations called twice\<close>





subsection \<open>C5: get_span and self-loop edges\<close>

text \<open>
  C5: \<^verbatim>\<open>get_span\<close> is to skip self-loop edges. In the graph \<open>looped_graph\<close> the tokens reachable from
  \<^verbatim>\<open>n1\<close> without the self-loop edges are \<^verbatim>\<open>['t1']\<close>, and none is reachable from \<^verbatim>\<open>t1\<close>. The
  code follows the self-loop edges: from \<^verbatim>\<open>n1\<close> it recurses into \<^verbatim>\<open>n1\<close> until the recursion limit
  is reached, whatever the limit, and from \<^verbatim>\<open>t1\<close> it returns \<^verbatim>\<open>['t1']\<close>.
\<close>

theorem C5_self_loop_edges_followed:
  "get_span fuel key looped_graph ''n1'' = Inl RuntimeError \<and>
   get_span (Suc fuel) key looped_graph ''t1'' = Inr [''t1'']"
proof
  show "get_span fuel key looped_graph ''n1'' = Inl RuntimeError"
    by (induction fuel) (simp_all add: looped_graph_edges dominance_def)
  show "get_span (Suc fuel) key looped_graph ''t1'' = Inr [''t1'']"
    by (simp add: looped_graph_edges dominance_def)
qed

subsection \<open>C6: only maximal chains of pointing relations\<close>



subsection \<open>C7: the key of a new parallel edge\<close>

text \<open>
  C7: with the keys 0 and 5 in use between \<^verbatim>\<open>u\<close> and \<^verbatim>\<open>v\<close>, \<^verbatim>\<open>add_edge\<close> without a key is
  to use the lowest unused integer, 1. The code counts up from the number of keys and
  uses 2.
\<close>

theorem C7_new_key_counts_from_length:
  "fst (add_edge ''u'' ''v'' (layer_set [''l'']) VNone ArgNone Map.empty keys_0_5) = None \<and>
   map fst (heap (snd (add_edge ''u'' ''v'' (layer_set [''l'']) VNone ArgNone Map.empty
     keys_0_5)) 0) = [VInt 0, VInt 5, VInt 2]"
  by (simp add: keys_0_5_def two_nodes_eq add_edge_def setup_attr_dict_def layer_set_def
        py_union_def find_key.simps Let_def)

subsection \<open>C8: own attributes and the shared overlay\<close>

text \<open>
  C8: the entry's own attributes are to win over the keyword attributes given for all
  nodes. For the existing node \<^verbatim>\<open>n\<close> the code stores the overlay's weight 2, not the
  entry's weight 1; for the new node \<^verbatim>\<open>m\<close> it stores the entry's weight 1.
\<close>

theorem C8_overlay_wins_on_existing_node:
  "fst (add_nodes_from [(''n'', [''layers'' \<mapsto> layer_set [''b''], ''weight'' \<mapsto> VInt 1])]
          [''weight'' \<mapsto> VInt 2] one_node) = None \<and>
   map_option (\<lambda>a. a ''weight'')
     (map_of (node (snd (add_nodes_from
        [(''n'', [''layers'' \<mapsto> layer_set [''b''], ''weight'' \<mapsto> VInt 1])]
        [''weight'' \<mapsto> VInt 2] one_node))) ''n'') = Some (Some (VInt 2)) \<and>
   map_option (\<lambda>a. a ''weight'')
     (map_of (node (snd (add_nodes_from
        [(''m'', [''layers'' \<mapsto> layer_set [''b''], ''weight'' \<mapsto> VInt 1])]
        [''weight'' \<mapsto> VInt 2] one_node))) ''m'') = Some (Some (VInt 1))"
  by (simp add: one_node_def add_node_def add_nodes_from_step_def empty_graph_def
        setup_attr_dict_def layer_set_def py_union_def)

subsection \<open>C9: an invalid entry in an edge bunch\<close>

text \<open>
  C9, as stated, fails: \<^verbatim>\<open>add_edges_from\<close> checks each entry when the loop reaches it. With
  a valid entry before a tuple of the wrong length the call raises, and the edge of the
  valid entry is in the graph.
\<close>

theorem C9_valid_prefix_applied_counterexample:
  "fst (add_edges_from [E3 ''u'' ''v'' [''layers'' \<mapsto> layer_set [''l'']], EOther]
          ArgNone Map.empty two_nodes) = Some AttributeError
   \<and> succ (snd (add_edges_from [E3 ''u'' ''v'' [''layers'' \<mapsto> layer_set [''l'']], EOther]
          ArgNone Map.empty two_nodes)) = [(''u'', [(''v'', 0)]), (''v'', [])]
   \<and> succ two_nodes = [(''u'', []), (''v'', [])]"
  by (simp add: two_nodes_eq add_edges_from_def add_edges_from_step_def
        add_edges_from_edge_def add_edge_def setup_attr_dict_def layer_set_def py_union_def
        find_key.simps Let_def)

text \<open>
  C9, amended: when the entries before an invalid entry are added without an exception,
  the call raises at the invalid entry (\<open>AttributeError\<close> for a tuple of the wrong length,
  the assertion error for missing or ill-typed \<^verbatim>\<open>layers\<close>), and the graph is left as the
  entries before it made it: the invalid entry and the entries after it change nothing.
\<close>

theorem C9_invalid_entry_stops_the_loop:
  assumes "invalid_entry e" and "fst (add_edges_from es attr_dict attr g) = None"
  shows "add_edges_from (es @ e # rest) attr_dict attr g =
           (Some (if e = EOther then AttributeError else AssertionError),
            snd (add_edges_from es attr_dict attr g))"
proof (cases "setup_attr_dict attr_dict attr")
  case (Inl err)
  then show ?thesis using assms(2) by (simp add: add_edges_from_def)
next
  case (Inr ad)
  obtain r g' where loop: "add_edges_from_loop es ad g = (r, g')"
    by (cases "add_edges_from_loop es ad g")
  with assms(2) Inr have "r = None" by (simp add: add_edges_from_def)
  then show ?thesis
    using Inr loop invalid_entry_step [OF assms(1), of ad g']
    by (simp add: add_edges_from_def add_edges_from_loop_append)
qed

text \<open>C9, amended, at a valid 3-tuple followed by a tuple of the wrong length.\<close>

theorem C9_invalid_entry_stops_the_loop_witness:
  "add_edges_from ([E3 ''u'' ''v'' [''layers'' \<mapsto> layer_set [''l'']]] @ EOther # [])
     ArgNone Map.empty two_nodes =
     (Some AttributeError,
      snd (add_edges_from [E3 ''u'' ''v'' [''layers'' \<mapsto> layer_set [''l'']]]
             ArgNone Map.empty two_nodes))"
proof -
  have 1: "invalid_entry EOther"
    by (simp add: invalid_entry_def entry_attrs_def)
  have 2: "fst (add_edges_from [E3 ''u'' ''v'' [''layers'' \<mapsto> layer_set [''l'']]]
                  ArgNone Map.empty two_nodes) = None"
    by (simp add: two_nodes_eq add_edges_from_def add_edges_from_step_def
          add_edges_from_edge_def add_edge_def setup_attr_dict_def layer_set_def py_union_def
          find_key.simps Let_def)
  show ?thesis using C9_invalid_entry_stops_the_loop [OF 1 2, of "[]"] by simp
qed

subsection \<open>C10: the successor and predecessor views agree\<close>

text \<open>
  C10: after every sequence of \<^verbatim>\<open>add_node\<close>, \<^verbatim>\<open>add_nodes_from\<close>, \<^verbatim>\<open>add_edge\<close> and
  \<^verbatim>\<open>add_edges_from\<close> calls on a new graph, whether or not they raise, \<^verbatim>\<open>succ[u][v][k]\<close> is
  an attribute dictionary exactly when \<^verbatim>\<open>pred[v][u][k]\<close> is, and then it is the same one.
\<close>

theorem C10_succ_and_pred_agree:
  "succ_edge (run_operations ops (empty_graph nsp r toks nm)) u v k =
   pred_edge (run_operations ops (empty_graph nsp r toks nm)) v u k"
proof -
  have "adj_inv (run_operations ops (empty_graph nsp r toks nm))"
    by (rule adj_inv_run [OF adj_inv_empty])
  then show ?thesis by (simp add: adj_inv_def succ_edge_def pred_edge_def)
qed


end
